theory Spec2Isabelle
  imports Main
begin

section \<open>The JavaScript values the story fixture works with\<close>

text \<open>
  The fixture \<^verbatim>\<open>PartitionSegmentWithPopover.stories.tsx\<close> builds, in each of its four
  stories, an array of random labels and a mock \<^verbatim>\<open>subset\<close> object, and hands both to the
  component under display. The embedding below keeps the source's names.

  \<^verbatim>\<open>null\<close> and \<^verbatim>\<open>undefined\<close> are one-element types. The exception the language
  itself gives the fixture's expressions is the \<^verbatim>\<open>RangeError\<close> of the array constructor.
  What an engine does when an array is too large for its memory is not part of the
  model: the model is the program on arrays the engine can hold, and those of the
  stories, of 300 and 2 entries, are among them.
\<close>

datatype js_null = Null

datatype js_undefined = Undefined

datatype js_error = RangeError

text \<open>
  A JavaScript array may be sparse: an index below its length either holds a value or
  is a hole. \<^verbatim>\<open>new Array(n)\<close> with a numeric argument gives an array of length \<open>n\<close> made
  of holes only, and raises \<^verbatim>\<open>RangeError\<close> unless \<open>n\<close> is an integer with
  \<open>0 \<le> n < 2^32\<close>.
\<close>

datatype 'a slot = Hole | Elem 'a

type_synonym 'a js_array = "'a slot list"

definition new_Array :: "int \<Rightarrow> js_error + 'a js_array" where
  "new_Array n =
     (if 0 \<le> n \<and> n < 2 ^ 32 then Inr (replicate (nat n) Hole) else Inl RangeError)"

text \<open>
  \<^verbatim>\<open>a.fill(v)\<close> stores \<open>v\<close> at every index below the length, holes included. An engine
  gives up on lengths its memory cannot hold, at a bound that depends on the engine and
  that neither the source nor the spec fixes; \<open>fill\<close> has no such bound, so for a count
  above those of the stories a result of the model says what the program returns if
  it returns.
\<close>

definition fill :: "'a \<Rightarrow> 'b js_array \<Rightarrow> 'a js_array" where
  "fill v a = map (\<lambda>_. Elem v) a"

text \<open>
  \<^verbatim>\<open>a.map(f)\<close> calls \<open>f\<close> on the elements in index order and skips the holes, which stay
  holes in the result. The callback of the fixture draws from \<^verbatim>\<open>faker\<close>, so it is a
  state transformer: it takes the program state and returns its value with the new
  state, and the calls are threaded from left to right.
\<close>

fun array_map :: "('a \<Rightarrow> 's \<Rightarrow> 'b \<times> 's) \<Rightarrow> 'a js_array \<Rightarrow> 's \<Rightarrow> 'b js_array \<times> 's" where
  "array_map f [] s = ([], s)"
| "array_map f (Hole # a) s =
     (case array_map f a s of (bs, s') \<Rightarrow> (Hole # bs, s'))"
| "array_map f (Elem x # a) s =
     (case f x s of (y, s1) \<Rightarrow>
        (case array_map f a s1 of (bs, s2) \<Rightarrow> (Elem y # bs, s2)))"

section \<open>Strings\<close>

text \<open>
  Strings are lists of 8-bit characters, read as ASCII. \<^verbatim>\<open>toLowerCase\<close> maps the letters
  \<^verbatim>\<open>A\<close> to \<^verbatim>\<open>Z\<close> (codes 65 to 90) to \<^verbatim>\<open>a\<close> to \<^verbatim>\<open>z\<close> and leaves every other character as it
  is. \<^verbatim>\<open>s.replace(/ /g, '-')\<close> replaces every space character of \<open>s\<close>, and nothing else,
  by a hyphen: the pattern matches exactly one space, the \<^verbatim>\<open>g\<close> flag makes the replacement
  global, and the replacement text has no \<^verbatim>\<open>$\<close> pattern in it.
\<close>

definition isUpper :: "char \<Rightarrow> bool" where
  "isUpper c = (65 \<le> (of_char c :: nat) \<and> (of_char c :: nat) \<le> 90)"

definition toLowerChar :: "char \<Rightarrow> char" where
  "toLowerChar c = (if isUpper c then char_of ((of_char c :: nat) + 32) else c)"

definition toLowerCase :: "string \<Rightarrow> string" where
  "toLowerCase s = map toLowerChar s"

definition replace_spaces :: "string \<Rightarrow> string" where
  "replace_spaces s = map (\<lambda>c. if c = CHR '' '' then CHR ''-'' else c) s"

section \<open>The label generator\<close>

text \<open>
  \<^verbatim>\<open>faker\<close> is a third-party library. Its \<^verbatim>\<open>faker.random.words(count)\<close> is a parameter of
  the model: a function \<open>words\<close> from the count and the program state (which holds the
  generator's seed) to the phrase drawn and the new state.

  The callback of \<^verbatim>\<open>map\<close> ignores the element it is called on:
  \<^verbatim>\<open>() => faker.random.words(2).toLowerCase().replace(/ /g, '-')\<close>
\<close>

type_synonym 's faker_words = "nat \<Rightarrow> 's \<Rightarrow> string \<times> 's"

definition label :: "string \<Rightarrow> string" where
  "label phrase = replace_spaces (toLowerCase phrase)"

definition label_callback :: "'s faker_words \<Rightarrow> js_null \<Rightarrow> 's \<Rightarrow> string \<times> 's" where
  "label_callback words x s = (case words 2 s of (phrase, s') \<Rightarrow> (label phrase, s'))"

text \<open>
  \<^verbatim>\<open>new Array(n).fill(null).map(() => ...)\<close>, the expression every story binds to
  \<^verbatim>\<open>partitionKeys\<close>, with the count \<open>n\<close> as its argument.
\<close>

definition make_partitionKeys ::
  "'s faker_words \<Rightarrow> int \<Rightarrow> 's \<Rightarrow> js_error + (string js_array \<times> 's)" where
  "make_partitionKeys words n s =
     (case (new_Array n :: js_error + js_undefined js_array) of
        Inl e \<Rightarrow> Inl e
      | Inr a \<Rightarrow> Inr (array_map (label_callback words) (fill Null a) s))"

text \<open>
  The phrases that \<open>k\<close> successive calls of \<^verbatim>\<open>faker.random.words(2)\<close> return from state
  \<open>s\<close> on, and the state they leave: the trace of the random source, in which the claims
  about randomness are stated.
\<close>

fun draws :: "'s faker_words \<Rightarrow> nat \<Rightarrow> 's \<Rightarrow> string list" where
  "draws words 0 s = []"
| "draws words (Suc k) s = (case words 2 s of (phrase, s') \<Rightarrow> phrase # draws words k s')"

fun after_draws :: "'s faker_words \<Rightarrow> nat \<Rightarrow> 's \<Rightarrow> 's" where
  "after_draws words 0 s = s"
| "after_draws words (Suc k) s = (case words 2 s of (phrase, s') \<Rightarrow> after_draws words k s')"

section \<open>The mock subset and the four stories\<close>

text \<open>
  The object literal each story builds, as records. The type of a partition key range
  is that of the component's GraphQL schema and stays a type parameter \<open>'r\<close>: the fixture
  only ever stores \<^verbatim>\<open>null\<close> there. A field that holds \<^verbatim>\<open>null\<close> or a value is an
  \<open>option\<close>.
\<close>

record asset_key =
  path :: "string list"

record 'r subset_value =
  boolValue :: "bool option"
  partitionKeys :: "string js_array"
  partitionKeyRanges :: "'r option"
  isPartitioned :: bool

record 'r subset =
  assetKey :: asset_key
  subsetValue :: "'r subset_value"

text \<open>
  Modelled from the spec: the enumeration \<^verbatim>\<open>AssetConditionEvaluationStatus\<close> of
  \<^verbatim>\<open>graphql/types\<close>, which is not among the sources. The spec names the three values the
  stories pass: TRUE, FALSE and SKIPPED.
\<close>

datatype AssetConditionEvaluationStatus = TRUE | FALSE | SKIPPED

text \<open>
  The props of \<^verbatim>\<open>PartitionSegmentWithPopover\<close>. \<^verbatim>\<open>selectPartition\<close> is a callback: called
  on an argument of type \<open>'a\<close> in a program state, it returns a value and the new state.
\<close>

record ('r, 'a, 's) props =
  description :: string
  status :: AssetConditionEvaluationStatus
  subset :: "'r subset"
  selectPartition :: "'a \<Rightarrow> 's \<Rightarrow> js_undefined \<times> 's"

definition PARTITION_COUNT :: int where
  "PARTITION_COUNT = 300"

text \<open>
  A story is modelled by its first render: \<^verbatim>\<open>React.useMemo\<close> with no dependencies runs
  the function it is given once, and the story returns the component with the props
  below inside a \<^verbatim>\<open>Box\<close> that carries no data of the story. The result is the props
  and the state after the draws, or the error raised on the way.
\<close>

definition TruePartitions ::
  "'s faker_words \<Rightarrow> 's \<Rightarrow> js_error + (('r, 'a, 's) props \<times> 's)" where
  "TruePartitions words s =
     (case make_partitionKeys words PARTITION_COUNT s of
        Inl e \<Rightarrow> Inl e
      | Inr (keys, s') \<Rightarrow>
          Inr (\<lparr>description = ''is_missing'',
                status = TRUE,
                subset = \<lparr>assetKey = \<lparr>path = [''foo'', ''bar'']\<rparr>,
                          subsetValue = \<lparr>boolValue = Some True,
                                         partitionKeys = keys,
                                         partitionKeyRanges = None,
                                         isPartitioned = True\<rparr>\<rparr>,
                selectPartition = (\<lambda>_ st. (Undefined, st))\<rparr>, s'))"

definition FalsePartitions ::
  "'s faker_words \<Rightarrow> 's \<Rightarrow> js_error + (('r, 'a, 's) props \<times> 's)" where
  "FalsePartitions words s =
     (case make_partitionKeys words PARTITION_COUNT s of
        Inl e \<Rightarrow> Inl e
      | Inr (keys, s') \<Rightarrow>
          Inr (\<lparr>description = ''is_missing'',
                status = FALSE,
                subset = \<lparr>assetKey = \<lparr>path = [''foo'', ''bar'']\<rparr>,
                          subsetValue = \<lparr>boolValue = Some False,
                                         partitionKeys = keys,
                                         partitionKeyRanges = None,
                                         isPartitioned = True\<rparr>\<rparr>,
                selectPartition = (\<lambda>_ st. (Undefined, st))\<rparr>, s'))"

definition SkippedPartitions ::
  "'s faker_words \<Rightarrow> 's \<Rightarrow> js_error + (('r, 'a, 's) props \<times> 's)" where
  "SkippedPartitions words s =
     (case make_partitionKeys words PARTITION_COUNT s of
        Inl e \<Rightarrow> Inl e
      | Inr (keys, s') \<Rightarrow>
          Inr (\<lparr>description = ''is_missing'',
                status = SKIPPED,
                subset = \<lparr>assetKey = \<lparr>path = [''foo'', ''bar'']\<rparr>,
                          subsetValue = \<lparr>boolValue = None,
                                         partitionKeys = keys,
                                         partitionKeyRanges = None,
                                         isPartitioned = True\<rparr>\<rparr>,
                selectPartition = (\<lambda>_ st. (Undefined, st))\<rparr>, s'))"

definition FewPartitions ::
  "'s faker_words \<Rightarrow> 's \<Rightarrow> js_error + (('r, 'a, 's) props \<times> 's)" where
  "FewPartitions words s =
     (case make_partitionKeys words 2 s of
        Inl e \<Rightarrow> Inl e
      | Inr (keys, s') \<Rightarrow>
          Inr (\<lparr>description = ''is_missing'',
                status = TRUE,
                subset = \<lparr>assetKey = \<lparr>path = [''foo'', ''bar'']\<rparr>,
                          subsetValue = \<lparr>boolValue = Some True,
                                         partitionKeys = keys,
                                         partitionKeyRanges = None,
                                         isPartitioned = True\<rparr>\<rparr>,
                selectPartition = (\<lambda>_ st. (Undefined, st))\<rparr>, s'))"

section \<open>Random sources to run the model on\<close>


definition table_words :: "nat faker_words" where
  "table_words count s =
     ([''Handmade Array'', ''back-end Monitor'', ''Handmade Array''] ! (s mod 3), Suc s)"

section \<open>What the generator computes\<close>

text \<open>
  The array the generator returns holds one label per draw, in the order of the draws:
  \<^verbatim>\<open>fill(null)\<close> leaves no hole for \<^verbatim>\<open>map\<close> to skip.
\<close>

lemma length_draws: "length (draws w k s) = k"
  by (induction k arbitrary: s) (simp_all split: prod.splits)

lemma array_map_fill:
  "array_map (label_callback w) (fill Null a) s =
     (map (\<lambda>p. Elem (label p)) (draws w (length a) s), after_draws w (length a) s)"
  by (induction a arbitrary: s) (simp_all add: fill_def label_callback_def split: prod.splits)

lemma make_partitionKeys_in_range:
  "0 \<le> n \<Longrightarrow> n < 2 ^ 32 \<Longrightarrow>
   make_partitionKeys w n s =
     Inr (map (\<lambda>p. Elem (label p)) (draws w (nat n) s), after_draws w (nat n) s)"
  by (simp add: make_partitionKeys_def new_Array_def array_map_fill)

lemma make_partitionKeys_out_of_range:
  "\<not> (0 \<le> n \<and> n < 2 ^ 32) \<Longrightarrow> make_partitionKeys w n s = Inl RangeError"
  by (simp add: make_partitionKeys_def new_Array_def)


lemma story_keys:
  "make_partitionKeys w PARTITION_COUNT s =
     Inr (map (\<lambda>p. Elem (label p)) (draws w 300 s), after_draws w 300 s)"
  "make_partitionKeys w 2 s =
     Inr (map (\<lambda>p. Elem (label p)) (draws w 2 s), after_draws w 2 s)"
  by (simp_all add: PARTITION_COUNT_def make_partitionKeys_in_range)

subsection \<open>Labels\<close>

lemma toLowerChar_not_upper: "\<not> isUpper (toLowerChar c)"
  by (simp add: toLowerChar_def isUpper_def)

lemma label_no_space: "CHR '' '' \<notin> set (label p)"
  by (auto simp: label_def replace_spaces_def)

lemma label_no_upper: "c \<in> set (label p) \<Longrightarrow> \<not> isUpper c"
proof -
  have "\<not> isUpper CHR ''-''" by (simp add: isUpper_def)
  then show "c \<in> set (label p) \<Longrightarrow> \<not> isUpper c"
    by (auto simp: label_def replace_spaces_def toLowerCase_def toLowerChar_not_upper)
qed

lemma toLowerChar_space: "toLowerChar c = CHR '' '' \<longleftrightarrow> c = CHR '' ''"
proof (cases "isUpper c")
  case True
  have "char_of (of_char c + 32 :: nat) \<noteq> CHR '' ''"
  proof
    assume "char_of (of_char c + 32 :: nat) = CHR '' ''"
    then have "(of_char (char_of (of_char c + 32 :: nat) :: char) :: nat) = of_char CHR '' ''"
      by simp
    with True show False by (simp add: isUpper_def)
  qed
  moreover from True have "c \<noteq> CHR '' ''" by (auto simp: isUpper_def)
  ultimately show ?thesis using True by (simp add: toLowerChar_def)
next
  case False
  then show ?thesis by (simp add: toLowerChar_def)
qed

lemma label_word: "CHR '' '' \<notin> set a \<Longrightarrow> label a = toLowerCase a"
  by (induction a) (auto simp: label_def replace_spaces_def toLowerCase_def toLowerChar_space)

lemma label_append: "label (a @ b) = label a @ label b"
  by (simp add: label_def replace_spaces_def toLowerCase_def)

lemma label_space: "label '' '' = ''-''"
  by (simp add: label_def replace_spaces_def toLowerCase_def toLowerChar_def isUpper_def)

section \<open>The claims about the generator\<close>




text \<open>
  C2. Every label the generator produces from a two-word phrase is the two words in
  lower case joined by a single hyphen, and it contains no space and no upper-case
  letter. In full: when the count is one the array constructor accepts and the \<open>i\<close>-th
  draw is the phrase \<open>a b\<close>, made of two non-empty words without spaces and one space
  between them, the \<open>i\<close>-th entry of the result is \<open>toLowerCase a\<close>, a hyphen, and
  \<open>toLowerCase b\<close>. Characters that are not letters, hyphens inside a word among them,
  are left as the random source gave them.
\<close>

theorem label_hyphenated_lowercase:
  assumes "0 \<le> n" and "n < 2 ^ 32" and "i < nat n"
    and "draws w (nat n) s ! i = a @ '' '' @ b"
    and "a \<noteq> []" and "b \<noteq> []"
    and "CHR '' '' \<notin> set a" and "CHR '' '' \<notin> set b"
  shows "\<exists>ks s'. make_partitionKeys w n s = Inr (ks, s') \<and>
           ks ! i = Elem (toLowerCase a @ ''-'' @ toLowerCase b) \<and>
           toLowerCase a \<noteq> [] \<and> toLowerCase b \<noteq> [] \<and>
           (\<forall>c \<in> set (toLowerCase a @ ''-'' @ toLowerCase b).
              c \<noteq> CHR '' '' \<and> \<not> isUpper c)"
proof -
  let ?l = "label (a @ '' '' @ b)"
  have l: "?l = toLowerCase a @ ''-'' @ toLowerCase b"
  proof -
    have "?l = label a @ label '' '' @ label b"
      by (simp only: label_append)
    moreover have "label a = toLowerCase a" and "label b = toLowerCase b"
      using assms(7,8) by (simp_all add: label_word)
    ultimately show ?thesis
      by (simp only: label_space)
  qed
  have "map (\<lambda>p. Elem (label p)) (draws w (nat n) s) ! i = Elem ?l"
    using assms(3,4) by (simp add: length_draws)
  moreover have "\<forall>c \<in> set ?l. c \<noteq> CHR '' '' \<and> \<not> isUpper c"
    using label_no_space label_no_upper by metis
  moreover have "toLowerCase a \<noteq> []" "toLowerCase b \<noteq> []"
    using assms(5,6) by (simp_all add: toLowerCase_def)
  ultimately show ?thesis
    using assms(1,2) l by (simp add: make_partitionKeys_in_range)
qed

text \<open>
  The theorem on the second draw of the table, \<^verbatim>\<open>back-end Monitor\<close>, whose label is
  \<^verbatim>\<open>back-end-monitor\<close>.
\<close>

theorem label_hyphenated_lowercase_witness:
  "(0::int) \<le> 2 \<and> (2::int) < 2 ^ 32 \<and> (1::nat) < nat 2 \<and>
   draws table_words (nat 2) 0 ! 1 = ''back-end'' @ '' '' @ ''Monitor'' \<and>
   ''back-end'' \<noteq> [] \<and> ''Monitor'' \<noteq> [] \<and>
   CHR '' '' \<notin> set ''back-end'' \<and> CHR '' '' \<notin> set ''Monitor'' \<and>
   (\<exists>ks s'. make_partitionKeys table_words 2 0 = Inr (ks, s') \<and>
      ks ! 1 = Elem ''back-end-monitor'')"
proof -
  have d: "draws table_words (nat 2) 0 ! 1 = ''back-end'' @ '' '' @ ''Monitor''"
    by code_simp
  have t: "toLowerCase ''back-end'' @ ''-'' @ toLowerCase ''Monitor'' = ''back-end-monitor''"
    by code_simp
  show ?thesis
    using d label_hyphenated_lowercase [of 2 1 table_words 0 "''back-end''" "''Monitor''"]
    unfolding t by auto
qed

text \<open>
  C4. For every count \<open>n\<close>, two runs of the generator with the same \<open>n\<close> end the same way,
  whatever the two random sources and their states are: both raise the same error, or
  both return arrays of the same length. The length depends on \<open>n\<close> only.
\<close>

theorem same_count_same_length:
  "map_sum id (\<lambda>r. length (fst r)) (make_partitionKeys w1 n s1) =
   map_sum id (\<lambda>r. length (fst r)) (make_partitionKeys w2 n s2)"
  by (cases "0 \<le> n \<and> n < 2 ^ 32")
     (simp_all add: make_partitionKeys_in_range make_partitionKeys_out_of_range length_draws)

text \<open>
  C10. The generator does not make its entries distinct. Its result is the list of the
  labels of the draws, one per draw and in their order, with nothing removed; so when
  two of the \<open>n\<close> draws, at positions \<open>i < j\<close>, are the same phrase, the entries at \<open>i\<close> and
  \<open>j\<close> are equal and the array has a duplicate. Positions \<open>i < j < n\<close> exist exactly when
  \<open>n \<ge> 2\<close>.
\<close>

theorem make_partitionKeys_not_distinct:
  assumes "n < 2 ^ 32" and "i < j" and "j < nat n"
    and "draws w (nat n) s ! i = draws w (nat n) s ! j"
  shows "\<exists>ks s'. make_partitionKeys w n s = Inr (ks, s') \<and>
           ks = map (\<lambda>p. Elem (label p)) (draws w (nat n) s) \<and>
           ks ! i = ks ! j \<and> \<not> distinct ks"
proof -
  let ?ks = "map (\<lambda>p. Elem (label p)) (draws w (nat n) s)"
  have len: "length ?ks = nat n" by (simp add: length_draws)
  have eq: "?ks ! i = ?ks ! j" using assms(2,3,4) by (simp add: length_draws)
  have "\<not> distinct ?ks"
    using eq assms(2,3) len by (metis distinct_conv_nth less_trans nat_neq_iff)
  moreover have "0 \<le> n" using assms(3) by simp
  ultimately show ?thesis
    using assms(1) eq by (simp add: make_partitionKeys_in_range)
qed

text \<open>The theorem on three draws of the table, the first and the third being equal.\<close>

theorem make_partitionKeys_not_distinct_witness:
  "(3::int) < 2 ^ 32 \<and> (0::nat) < 2 \<and> (2::nat) < nat 3 \<and>
   draws table_words (nat 3) 0 ! 0 = draws table_words (nat 3) 0 ! 2 \<and>
   (\<exists>ks s'. make_partitionKeys table_words 3 0 = Inr (ks, s') \<and>
      ks = map (\<lambda>p. Elem (label p)) (draws table_words (nat 3) 0) \<and>
      ks ! 0 = ks ! 2 \<and> \<not> distinct ks)"
proof -
  have d: "draws table_words (nat 3) 0 ! 0 = draws table_words (nat 3) 0 ! 2"
    by code_simp
  show ?thesis
    using d make_partitionKeys_not_distinct [of 3 0 2 table_words 0] by simp
qed

section \<open>The claims about the four stories\<close>

text \<open>
  Every story gets through its generator, since 300 and 2 are array lengths, so each
  statement below says that the story returns props and what they hold, for every
  random source and every state it starts in.
\<close>

lemmas stories_def =
  TruePartitions_def FalsePartitions_def SkippedPartitions_def FewPartitions_def

text \<open>
  C3. In each of the four stories \<^verbatim>\<open>subsetValue.boolValue\<close> is one of true, false and
  absent, and goes with the status passed to the component: true with TRUE in
  \<^verbatim>\<open>TruePartitions\<close> and in \<^verbatim>\<open>FewPartitions\<close>, false with FALSE in \<^verbatim>\<open>FalsePartitions\<close>, absent
  with SKIPPED in \<^verbatim>\<open>SkippedPartitions\<close>.
\<close>

theorem boolValue_matches_status:
  "(\<exists>p s'. TruePartitions w s = Inr (p, s') \<and>
      boolValue (subsetValue (subset p)) = Some True \<and> status p = TRUE) \<and>
   (\<exists>p s'. FalsePartitions w s = Inr (p, s') \<and>
      boolValue (subsetValue (subset p)) = Some False \<and> status p = FALSE) \<and>
   (\<exists>p s'. SkippedPartitions w s = Inr (p, s') \<and>
      boolValue (subsetValue (subset p)) = None \<and> status p = SKIPPED) \<and>
   (\<exists>p s'. FewPartitions w s = Inr (p, s') \<and>
      boolValue (subsetValue (subset p)) = Some True \<and> status p = TRUE)"
  by (simp add: stories_def story_keys)

text \<open>
  C5. \<^verbatim>\<open>partitionKeys\<close> has 300 entries, the constant \<^verbatim>\<open>PARTITION_COUNT\<close>, in
  \<^verbatim>\<open>TruePartitions\<close>, \<^verbatim>\<open>FalsePartitions\<close> and \<^verbatim>\<open>SkippedPartitions\<close>, and 2 entries in
  \<^verbatim>\<open>FewPartitions\<close>; no entry is a hole.
\<close>

theorem partitionKeys_cardinality:
  "(\<exists>p s'. TruePartitions w s = Inr (p, s') \<and>
      length (partitionKeys (subsetValue (subset p))) = 300 \<and>
      Hole \<notin> set (partitionKeys (subsetValue (subset p)))) \<and>
   (\<exists>p s'. FalsePartitions w s = Inr (p, s') \<and>
      length (partitionKeys (subsetValue (subset p))) = 300 \<and>
      Hole \<notin> set (partitionKeys (subsetValue (subset p)))) \<and>
   (\<exists>p s'. SkippedPartitions w s = Inr (p, s') \<and>
      length (partitionKeys (subsetValue (subset p))) = 300 \<and>
      Hole \<notin> set (partitionKeys (subsetValue (subset p)))) \<and>
   (\<exists>p s'. FewPartitions w s = Inr (p, s') \<and>
      length (partitionKeys (subsetValue (subset p))) = 2 \<and>
      Hole \<notin> set (partitionKeys (subsetValue (subset p))))"
  by (auto simp: stories_def story_keys length_draws)

text \<open>
  C6. In the subset object of each of the four stories
  \<^verbatim>\<open>subsetValue.partitionKeyRanges\<close> is absent.
\<close>

theorem partitionKeyRanges_absent:
  "(\<exists>p s'. TruePartitions w s = Inr (p, s') \<and>
      partitionKeyRanges (subsetValue (subset p)) = None) \<and>
   (\<exists>p s'. FalsePartitions w s = Inr (p, s') \<and>
      partitionKeyRanges (subsetValue (subset p)) = None) \<and>
   (\<exists>p s'. SkippedPartitions w s = Inr (p, s') \<and>
      partitionKeyRanges (subsetValue (subset p)) = None) \<and>
   (\<exists>p s'. FewPartitions w s = Inr (p, s') \<and>
      partitionKeyRanges (subsetValue (subset p)) = None)"
  by (simp add: stories_def story_keys)

text \<open>
  C7. In the subset object of each of the four stories \<^verbatim>\<open>subsetValue.isPartitioned\<close> is
  true.
\<close>

theorem isPartitioned_true:
  "(\<exists>p s'. TruePartitions w s = Inr (p, s') \<and> isPartitioned (subsetValue (subset p))) \<and>
   (\<exists>p s'. FalsePartitions w s = Inr (p, s') \<and> isPartitioned (subsetValue (subset p))) \<and>
   (\<exists>p s'. SkippedPartitions w s = Inr (p, s') \<and> isPartitioned (subsetValue (subset p))) \<and>
   (\<exists>p s'. FewPartitions w s = Inr (p, s') \<and> isPartitioned (subsetValue (subset p)))"
  by (simp add: stories_def story_keys)

text \<open>
  C8. In the subset object of each of the four stories \<^verbatim>\<open>assetKey\<close> is the same path,
  \<^verbatim>\<open>foo\<close> then \<^verbatim>\<open>bar\<close>.
\<close>

theorem assetKey_constant:
  "(\<exists>p s'. TruePartitions w s = Inr (p, s') \<and>
      path (assetKey (subset p)) = [''foo'', ''bar'']) \<and>
   (\<exists>p s'. FalsePartitions w s = Inr (p, s') \<and>
      path (assetKey (subset p)) = [''foo'', ''bar'']) \<and>
   (\<exists>p s'. SkippedPartitions w s = Inr (p, s') \<and>
      path (assetKey (subset p)) = [''foo'', ''bar'']) \<and>
   (\<exists>p s'. FewPartitions w s = Inr (p, s') \<and>
      path (assetKey (subset p)) = [''foo'', ''bar''])"
  by (simp add: stories_def story_keys)

text \<open>
  C9. In each of the four stories the \<^verbatim>\<open>selectPartition\<close> callback passed to the
  component does nothing: called on any argument in any state, it returns
  \<^verbatim>\<open>undefined\<close> and leaves the state as it was.
\<close>

theorem selectPartition_noop:
  "(\<exists>p s'. TruePartitions w s = Inr (p, s') \<and>
      (\<forall>x st. selectPartition p x st = (Undefined, st))) \<and>
   (\<exists>p s'. FalsePartitions w s = Inr (p, s') \<and>
      (\<forall>x st. selectPartition p x st = (Undefined, st))) \<and>
   (\<exists>p s'. SkippedPartitions w s = Inr (p, s') \<and>
      (\<forall>x st. selectPartition p x st = (Undefined, st))) \<and>
   (\<exists>p s'. FewPartitions w s = Inr (p, s') \<and>
      (\<forall>x st. selectPartition p x st = (Undefined, st)))"
  by (simp add: stories_def story_keys)

end
